theory Spec2Isabelle
  imports Main "HOL-Library.Sublist"
begin

section \<open>Python values and exceptions\<close>

text \<open>
  An exception raised by Python code. \<open>PyException cls msg\<close> is an instance of a
  subclass of \<open>Exception\<close> (class name and \<open>str(e)\<close>); \<open>PyBaseException cls\<close> is one
  that derives from \<open>BaseException\<close> only (\<open>KeyboardInterrupt\<close>,
  \<open>asyncio.CancelledError\<close>, \<open>SystemExit\<close>), which \<open>except Exception\<close> does not catch.
\<close>

datatype exc = PyException string string | PyBaseException string

fun is_Exception :: "exc \<Rightarrow> bool" where
  "is_Exception (PyException cls msg) = True"
| "is_Exception (PyBaseException cls) = False"

fun exc_str :: "exc \<Rightarrow> string" where
  "exc_str (PyException cls msg) = msg"
| "exc_str (PyBaseException cls) = []"

text \<open>
  The attribute values a raw search record can carry: \<open>None\<close>, a \<open>str\<close>, or a
  \<open>datetime\<close> (represented by the text \<open>str()\<close> renders for it).
\<close>

datatype pyval = PyNone | PyStr string | PyDatetime string

fun truthy :: "pyval \<Rightarrow> bool" where
  "truthy PyNone = False"
| "truthy (PyStr s) = (s \<noteq> [])"
| "truthy (PyDatetime s) = True"

fun py_str :: "pyval \<Rightarrow> string" where
  "py_str PyNone = ''None''"
| "py_str (PyStr s) = s"
| "py_str (PyDatetime s) = s"

text \<open>
  A raw record is a duck-typed object: all the code does with it is \<open>hasattr\<close> and
  attribute access, so it is the partial map from attribute names to values.
\<close>

type_synonym raw = "string \<rightharpoonup> pyval"

definition hasattr :: "raw \<Rightarrow> string \<Rightarrow> bool" where
  "hasattr r name = (r name \<noteq> None)"

definition getattr :: "raw \<Rightarrow> string \<Rightarrow> exc + pyval" where
  "getattr r name =
     (case r name of
        None \<Rightarrow> Inl (PyException ''AttributeError'' name)
      | Some v \<Rightarrow> Inr v)"

text \<open>
  What \<open>await graphiti.search(query)\<close> evaluates to when it returns: \<open>None\<close>, an
  object without \<open>__len__\<close>, or a sized iterable of raw records.
\<close>

datatype response = RespNone | RespUnsized | RespList "raw list"

fun py_len :: "response \<Rightarrow> exc + nat" where
  "py_len RespNone = Inl (PyException ''TypeError'' ''object of type NoneType has no len()'')"
| "py_len RespUnsized = Inl (PyException ''TypeError'' ''object has no len()'')"
| "py_len (RespList rs) = Inr (length rs)"

fun py_iter :: "response \<Rightarrow> exc + raw list" where
  "py_iter RespNone = Inl (PyException ''TypeError'' ''NoneType object is not iterable'')"
| "py_iter RespUnsized = Inl (PyException ''TypeError'' ''object is not iterable'')"
| "py_iter (RespList rs) = Inr rs"

section \<open>GraphitiSearchResult and the search tool\<close>

record GraphitiSearchResult =
  uuid :: string
  fact :: string
  valid_at :: "string option"
  invalid_at :: "string option"
  source_node_uuid :: "string option"

text \<open>Field validation of the pydantic model: \<open>str\<close> and \<open>Optional[str]\<close>.\<close>

fun validate_str :: "string \<Rightarrow> pyval \<Rightarrow> exc + string" where
  "validate_str field (PyStr s) = Inr s"
| "validate_str field v = Inl (PyException ''ValidationError'' field)"

fun validate_optional_str :: "string \<Rightarrow> pyval \<Rightarrow> exc + string option" where
  "validate_optional_str field PyNone = Inr None"
| "validate_optional_str field (PyStr s) = Inr (Some s)"
| "validate_optional_str field v = Inl (PyException ''ValidationError'' field)"

text \<open>
  The constructor call of lines 102-106: the three argument expressions are evaluated
  left to right, then the model validates its fields; \<open>valid_at\<close> and \<open>invalid_at\<close>
  take their default \<open>None\<close>.
\<close>

definition make_result :: "raw \<Rightarrow> exc + GraphitiSearchResult" where
  "make_result r =
     (case getattr r ''uuid'' of Inl e \<Rightarrow> Inl e | Inr u \<Rightarrow>
     (case getattr r ''fact'' of Inl e \<Rightarrow> Inl e | Inr f \<Rightarrow>
     (case (if hasattr r ''source_node_uuid'' then getattr r ''source_node_uuid''
            else Inr PyNone) of Inl e \<Rightarrow> Inl e | Inr s \<Rightarrow>
     (case validate_str ''uuid'' u of Inl e \<Rightarrow> Inl e | Inr u' \<Rightarrow>
     (case validate_str ''fact'' f of Inl e \<Rightarrow> Inl e | Inr f' \<Rightarrow>
     (case validate_optional_str ''source_node_uuid'' s of Inl e \<Rightarrow> Inl e | Inr s' \<Rightarrow>
        Inr \<lparr>uuid = u', fact = f', valid_at = None, invalid_at = None,
             source_node_uuid = s'\<rparr>))))))"

text \<open>
  Lines 109-112: \<open>if hasattr(result, name) and result.name:\<close> followed by the
  assignment of \<open>str(result.name)\<close>.
\<close>

definition temporal :: "raw \<Rightarrow> string \<Rightarrow> string option" where
  "temporal r name =
     (case r name of
        None \<Rightarrow> None
      | Some v \<Rightarrow> if truthy v then Some (py_str v) else None)"

definition format_result :: "raw \<Rightarrow> exc + GraphitiSearchResult" where
  "format_result r =
     (case make_result r of
        Inl e \<Rightarrow> Inl e
      | Inr fr \<Rightarrow>
          let fr1 = (case temporal r ''valid_at'' of
                       None \<Rightarrow> fr | Some t \<Rightarrow> fr\<lparr>valid_at := Some t\<rparr>);
              fr2 = (case temporal r ''invalid_at'' of
                       None \<Rightarrow> fr1 | Some t \<Rightarrow> fr1\<lparr>invalid_at := Some t\<rparr>)
          in Inr fr2)"

text \<open>The \<open>for result in results\<close> loop, with \<open>formatted_results\<close> as accumulator.\<close>

fun format_loop ::
  "raw list \<Rightarrow> GraphitiSearchResult list \<Rightarrow> exc + GraphitiSearchResult list" where
  "format_loop [] formatted_results = Inr formatted_results"
| "format_loop (result # results) formatted_results =
     (case format_result result of
        Inl e \<Rightarrow> Inl e
      | Inr formatted_result \<Rightarrow>
          format_loop results (formatted_results @ [formatted_result]))"

text \<open>
  The body of the \<open>try\<close> of \<open>search_graphiti\<close> (lines 94-116). The fact store is the
  parameter \<open>search\<close>: what the awaited call raises or returns for a query. The two
  \<open>logging.info\<close> calls matter to control flow only through \<open>len(results)\<close>.
\<close>

definition search_body ::
  "(string \<Rightarrow> exc + response) \<Rightarrow> string \<Rightarrow> exc + GraphitiSearchResult list" where
  "search_body search query =
     (case search query of Inl e \<Rightarrow> Inl e | Inr results \<Rightarrow>
     (case py_len results of Inl e \<Rightarrow> Inl e | Inr n \<Rightarrow>
     (case py_iter results of Inl e \<Rightarrow> Inl e | Inr rs \<Rightarrow>
        format_loop rs [])))"

text \<open>
  \<open>search_graphiti\<close>: \<open>except Exception\<close> turns every \<open>Exception\<close> of the body into
  the empty list; anything else propagates (\<open>Inl\<close>).
\<close>

definition search_graphiti ::
  "(string \<Rightarrow> exc + response) \<Rightarrow> string \<Rightarrow> exc + GraphitiSearchResult list" where
  "search_graphiti search query =
     (case search_body search query of
        Inl e \<Rightarrow> if is_Exception e then Inr [] else Inl e
      | Inr formatted_results \<Rightarrow> Inr formatted_results)"

section \<open>The session of \<open>main\<close>\<close>

text \<open>
  The entries of the chat history are the message objects of the agent library: a
  request sent to the model or a response received from it.
\<close>

datatype message = ModelRequest string | ModelResponse string

text \<open>
  What one \<open>graphiti_agent.run_stream(...)\<close> does: entering the context raises, or the
  text stream delivers its fragments in order and then either raises or completes. The
  last component holds the messages that the run itself produced (the request with the
  user prompt, tool calls and returns, the final response).
\<close>

datatype run = EnterRaises exc | Stream "string list" "exc option" "message list"

text \<open>
  The generation backend is a parameter: from its own state, the user input and the
  history passed as \<open>message_history\<close> it produces a run and its next state.
\<close>

type_synonym 'w agent = "'w \<Rightarrow> string \<Rightarrow> message list \<Rightarrow> run \<times> 'w"

text \<open>
  The console is a parameter too: what \<open>console.print\<close> raises for a text that it
  renders as markup (\<open>None\<close> when it prints). It matters for the two prints that
  interpolate \<open>str(e)\<close> into markup, lines 171 and 206; the other prints have fixed
  texts.
\<close>

type_synonym console = "string \<Rightarrow> exc option"

text \<open>The observable actions of \<open>main\<close>, in program order.\<close>

datatype event =
    PrintWelcome
  | PrintConfiguration
  | CreateClient
  | BuildIndices
  | PrintIndicesBuilt
  | ClearData
  | PrintUsingExisting string
  | PromptUser
  | PrintGoodbye
  | PrintRobot
  | RunStream string "message list"
  | LiveUpdate string
  | PrintError string
  | PrintTroubleshooting
  | Close
  | PrintClosed
  | PrintClearing
  | PrintCleared

text \<open>\<open>str.lower()\<close> on the ASCII letters.\<close>

definition lower_char :: "char \<Rightarrow> char" where
  "lower_char c =
     (if (65::nat) \<le> of_char c \<and> of_char c \<le> (90::nat)
      then char_of (of_char c + (32::nat)) else c)"

definition lower :: "string \<Rightarrow> string" where
  "lower s = map lower_char s"

text \<open>The \<open>in\<close> operator on strings: \<open>sub in s\<close>.\<close>

fun contains :: "string \<Rightarrow> string \<Rightarrow> bool" where
  "contains [] sub = (sub = [])"
| "contains (c # cs) sub = (prefix sub (c # cs) \<or> contains cs sub)"

definition exit_tokens :: "string list" where
  "exit_tokens = [''exit'', ''quit'', ''bye'', ''goodbye'']"

text \<open>
  Lines 196-199: \<open>curr_message\<close> starts empty, every fragment is appended to it and the
  live display is updated with the buffer. Returns the final buffer and the updates.
\<close>

fun stream_text :: "string list \<Rightarrow> string \<Rightarrow> string \<times> event list" where
  "stream_text [] curr_message = (curr_message, [])"
| "stream_text (message # rest) curr_message =
     (case stream_text rest (curr_message @ message) of
        (final, updates) \<Rightarrow> (final, LiveUpdate (curr_message @ message) # updates))"

text \<open>
  \<open>result.all_messages()\<close> of the agent library: the messages that were passed as
  \<open>message_history\<close>, followed by the messages of this run.
\<close>

definition all_messages :: "message list \<Rightarrow> message list \<Rightarrow> message list" where
  "all_messages message_history new_messages = message_history @ new_messages"

text \<open>
  The body of the inner \<open>try\<close> (lines 188-202): the events, the history afterwards, the
  exception that leaves the block (if any) and the backend's next state.
  \<open>messages.extend(result.all_messages())\<close> is reached only when nothing was raised.
\<close>

definition turn ::
  "'w agent \<Rightarrow> 'w \<Rightarrow> string \<Rightarrow> message list \<Rightarrow>
     event list \<times> message list \<times> exc option \<times> 'w" where
  "turn agent w user_input messages =
     (case agent w user_input messages of
        (EnterRaises e, w') \<Rightarrow>
          ([PrintRobot, RunStream user_input messages], messages, Some e, w')
      | (Stream fragments err new_messages, w') \<Rightarrow>
          (case stream_text fragments [] of
             (curr_message, updates) \<Rightarrow>
               (case err of
                  Some e \<Rightarrow>
                    (PrintRobot # RunStream user_input messages # updates,
                     messages, Some e, w')
                | None \<Rightarrow>
                    (PrintRobot # RunStream user_input messages # updates,
                     messages @ all_messages messages new_messages, None, w'))))"

text \<open>
  The text of line 206, \<open>str(e)\<close> interpolated into the markup as it is (the leading
  newline and the cross mark, which are no markup, are left out).
\<close>

definition error_markup :: "string \<Rightarrow> string" where
  "error_markup error_msg = ''[bold red]Error:[/bold red] '' @ error_msg"

text \<open>
  The handler of lines 204-219: the events it prints, and the exception raised inside
  it if \<open>console.print\<close> of line 206 raises (nothing is printed then, and the rest of
  the handler is skipped).
\<close>

definition on_error :: "console \<Rightarrow> exc \<Rightarrow> event list \<times> exc option" where
  "on_error console e =
     (case console (error_markup (exc_str e)) of
        Some raised \<Rightarrow> ([], Some raised)
      | None \<Rightarrow>
          (PrintError (exc_str e) #
           (if contains (lower (exc_str e)) ''connection''
               \<or> contains (lower (exc_str e)) ''refused''
            then [PrintTroubleshooting] else []), None))"

definition prepend ::
  "event list \<Rightarrow> event list \<times> message list \<times> exc option \<Rightarrow>
     event list \<times> message list \<times> exc option" where
  "prepend evs res = (case res of (evs', messages, err) \<Rightarrow> (evs @ evs', messages, err))"

text \<open>
  The \<open>while True\<close> loop (lines 176-219) over the lines that \<open>input()\<close> will deliver:
  each is a string or an exception raised by \<open>input()\<close>, and at the end of the input
  \<open>input()\<close> raises \<open>EOFError\<close>. The result is the events, the final history and the
  exception that leaves the loop (\<open>None\<close> after \<open>break\<close>). An exception raised inside
  the \<open>except\<close> handler is not caught by it and leaves the loop.
\<close>

fun session_loop ::
  "console \<Rightarrow> 'w agent \<Rightarrow> 'w \<Rightarrow> (exc + string) list \<Rightarrow> message list \<Rightarrow>
     event list \<times> message list \<times> exc option" where
  "session_loop console agent w [] messages =
     ([PromptUser], messages, Some (PyException ''EOFError'' ''EOF when reading a line''))"
| "session_loop console agent w (Inl e # inputs) messages = ([PromptUser], messages, Some e)"
| "session_loop console agent w (Inr user_input # inputs) messages =
     (if lower user_input \<in> set exit_tokens
      then ([PromptUser, PrintGoodbye], messages, None)
      else
        (case turn agent w user_input messages of
           (evs, messages', err, w') \<Rightarrow>
             (case err of
                None \<Rightarrow>
                  prepend (PromptUser # evs) (session_loop console agent w' inputs messages')
              | Some e \<Rightarrow>
                  if is_Exception e
                  then
                    (case on_error console e of
                       (printed, Some raised) \<Rightarrow>
                         (PromptUser # evs @ printed, messages', Some raised)
                     | (printed, None) \<Rightarrow>
                         prepend (PromptUser # evs @ printed)
                           (session_loop console agent w' inputs messages'))
                  else (PromptUser # evs, messages', Some e))))"

text \<open>Lines 173-223: \<open>messages = []\<close>, the loop, and the \<open>finally\<close> that closes the client.\<close>

definition run_session ::
  "console \<Rightarrow> 'w agent \<Rightarrow> 'w \<Rightarrow> (exc + string) list \<Rightarrow>
     event list \<times> message list \<times> exc option" where
  "run_session console agent w inputs =
     (case session_loop console agent w inputs [] of
        (evs, messages, err) \<Rightarrow> (evs @ [Close, PrintClosed], messages, err))"

text \<open>
  The text of line 171 (without the information sign), and the handler of lines
  170-171: what it prints, and the exception that leaves it if the print raises.
\<close>

definition using_existing_markup :: "string \<Rightarrow> string" where
  "using_existing_markup error_msg =
     ''[yellow]Using existing indices: '' @ error_msg @ ''[/yellow]''"

definition on_startup_error :: "console \<Rightarrow> exc \<Rightarrow> event list \<times> exc option" where
  "on_startup_error console e =
     (case console (using_existing_markup (exc_str e)) of
        Some raised \<Rightarrow> ([], Some raised)
      | None \<Rightarrow> ([PrintUsingExisting (exc_str e)], None))"

text \<open>
  Lines 160-171: \<open>build\<close> and \<open>clear\<close> are what
  \<open>build_indices_and_constraints()\<close> and \<open>clear_data(driver)\<close> raise (\<open>None\<close> when they
  return). Yields the events and the exception that leaves the block: one that
  \<open>except Exception\<close> does not catch, or one raised inside the handler.
\<close>

definition startup :: "console \<Rightarrow> exc option \<Rightarrow> exc option \<Rightarrow> event list \<times> exc option" where
  "startup console build clear =
     (case build of
        Some e \<Rightarrow>
          if is_Exception e
          then (case on_startup_error console e of
                  (printed, raised) \<Rightarrow> (BuildIndices # printed, raised))
          else ([BuildIndices], Some e)
      | None \<Rightarrow>
          (case clear of
             Some e \<Rightarrow>
               if is_Exception e
               then (case on_startup_error console e of
                       (printed, raised) \<Rightarrow>
                         ([BuildIndices, PrintIndicesBuilt, ClearData] @ printed, raised))
               else ([BuildIndices, PrintIndicesBuilt, ClearData], Some e)
           | None \<Rightarrow> ([BuildIndices, PrintIndicesBuilt, ClearData], None)))"

text \<open>
  \<open>main\<close>: the banner, the client created at line 157, the start-up block, and then
  the session. An exception that leaves the start-up block leaves \<open>main\<close>: the
  \<open>try\<close> with the \<open>finally\<close> begins only at line 175.
\<close>

definition main ::
  "console \<Rightarrow> exc option \<Rightarrow> exc option \<Rightarrow> 'w agent \<Rightarrow> 'w \<Rightarrow> (exc + string) list \<Rightarrow>
     event list \<times> message list \<times> exc option" where
  "main console build clear agent w inputs =
     (case startup console build clear of
        (evs, Some e) \<Rightarrow> ([PrintWelcome, PrintConfiguration, CreateClient] @ evs, [], Some e)
      | (evs, None) \<Rightarrow>
          prepend ([PrintWelcome, PrintConfiguration, CreateClient] @ evs)
            (run_session console agent w inputs))"

text \<open>
  \<open>initialize_graphiti_with_clean_state\<close> of \<open>llm_config.py\<close>: \<open>build1\<close> and \<open>build2\<close>
  are the outcomes of the first and second index build, \<open>clear_data_func\<close> is \<open>None\<close>
  when no function is passed and otherwise the outcome of calling it.
\<close>

definition initialize_graphiti_with_clean_state ::
  "exc option \<Rightarrow> exc option option \<Rightarrow> exc option \<Rightarrow> event list \<times> exc option" where
  "initialize_graphiti_with_clean_state build1 clear_data_func build2 =
     (case build1 of
        Some e \<Rightarrow> ([BuildIndices], Some e)
      | None \<Rightarrow>
          (case clear_data_func of
             None \<Rightarrow> ([BuildIndices], None)
           | Some clear \<Rightarrow>
               (case clear of
                  Some e \<Rightarrow> ([BuildIndices, PrintClearing, ClearData], Some e)
                | None \<Rightarrow>
                    (case build2 of
                       Some e \<Rightarrow>
                         ([BuildIndices, PrintClearing, ClearData, PrintCleared,
                           BuildIndices], Some e)
                     | None \<Rightarrow>
                         ([BuildIndices, PrintClearing, ClearData, PrintCleared,
                           BuildIndices], None)))))"

section \<open>Concrete collaborators\<close>

text \<open>A fact store that cannot be reached, one that answers \<open>None\<close>, one that
  answers with an object that is not a collection, and one whose call is cancelled.\<close>

definition disconnected_search :: "string \<Rightarrow> exc + response" where
  "disconnected_search query = Inl (PyException ''ServiceUnavailable'' ''Connection refused'')"

definition null_search :: "string \<Rightarrow> exc + response" where
  "null_search query = Inr RespNone"

definition unsized_search :: "string \<Rightarrow> exc + response" where
  "unsized_search query = Inr RespUnsized"

definition cancelled_search :: "string \<Rightarrow> exc + response" where
  "cancelled_search query = Inl (PyBaseException ''CancelledError'')"

text \<open>The two records of the example: ids \<open>"1"\<close> and \<open>""\<close>.\<close>

definition example_search :: "string \<Rightarrow> exc + response" where
  "example_search query =
     Inr (RespList
       [[''uuid'' \<mapsto> PyStr ''1'', ''fact'' \<mapsto> PyStr ''A existed in 2020''],
        [''uuid'' \<mapsto> PyStr [], ''fact'' \<mapsto> PyStr ''bad'']])"

text \<open>A response whose second record has no \<open>fact\<close> attribute.\<close>

definition partial_search :: "string \<Rightarrow> exc + response" where
  "partial_search query =
     Inr (RespList
       [[''uuid'' \<mapsto> PyStr ''1'', ''fact'' \<mapsto> PyStr ''A existed in 2020''],
        [''uuid'' \<mapsto> PyStr ''2'']])"

text \<open>
  A backend that calls the search tool before it answers: the messages of the run are
  the user prompt, the tool call, the tool return and the answer.
\<close>

definition tool_call_agent :: "unit agent" where
  "tool_call_agent w user_input message_history =
     (Stream [''It was '', ''released in 2023.''] None
        [ModelRequest user_input,
         ModelResponse ''call search_graphiti'',
         ModelRequest ''return of search_graphiti'',
         ModelResponse ''It was released in 2023.''], w)"

text \<open>A backend that answers without the tool: the run has the prompt and the answer.\<close>

definition plain_agent :: "unit agent" where
  "plain_agent w user_input message_history =
     (Stream [''Hel'', ''lo''] None [ModelRequest user_input, ModelResponse ''Hello''], w)"

definition unreachable_agent :: "unit agent" where
  "unreachable_agent w user_input message_history =
     (EnterRaises (PyException ''APIConnectionError'' ''Connection error.''), w)"

definition dropped_agent :: "unit agent" where
  "dropped_agent w user_input message_history =
     (Stream [''Hel''] (Some (PyException ''RemoteProtocolError'' ''peer closed connection''))
        [], w)"

definition interrupted_agent :: "unit agent" where
  "interrupted_agent w user_input message_history =
     (Stream [''Hel''] (Some (PyBaseException ''KeyboardInterrupt'')) [], w)"

text \<open>A backend whose error message quotes a chat-template token.\<close>

definition tagged_agent :: "unit agent" where
  "tagged_agent w user_input message_history =
     (EnterRaises (PyException ''BadRequestError'' ''unexpected token [/INST]''), w)"

text \<open>
  A console that, on the texts used below, does what the markup renderer does: the
  closing tag \<open>[/INST]\<close> matches no open tag in them, so rendering raises
  \<open>MarkupError\<close>; the other texts are printed.
\<close>

definition strict_console :: console where
  "strict_console markup =
     (if contains markup ''[/INST]''
      then Some (PyException ''MarkupError''
                   ''closing tag [/INST] does not match any open tag'')
      else None)"

section \<open>The search tool: failures and normalization\<close>

lemma getattr_is_Exception: "getattr r name = Inl e \<Longrightarrow> is_Exception e"
  by (auto simp: getattr_def split: option.splits)

lemma validate_str_is_Exception: "validate_str field v = Inl e \<Longrightarrow> is_Exception e"
  by (cases v) auto

lemma validate_optional_str_is_Exception:
  "validate_optional_str field v = Inl e \<Longrightarrow> is_Exception e"
  by (cases v) auto

lemma make_result_is_Exception: "make_result r = Inl e \<Longrightarrow> is_Exception e"
  unfolding make_result_def
  by (auto split: sum.splits if_splits
      dest: getattr_is_Exception validate_str_is_Exception validate_optional_str_is_Exception)

lemma format_result_is_Exception: "format_result r = Inl e \<Longrightarrow> is_Exception e"
  unfolding format_result_def
  by (auto split: sum.splits simp: Let_def dest: make_result_is_Exception)

lemma format_loop_is_Exception: "format_loop rs acc = Inl e \<Longrightarrow> is_Exception e"
  by (induction rs arbitrary: acc) (auto split: sum.splits dest: format_result_is_Exception)

lemma format_loop_fails:
  "r \<in> set rs \<Longrightarrow> format_result r = Inl e \<Longrightarrow> \<exists>e'. format_loop rs acc = Inl e'"
  by (induction rs arbitrary: acc) (auto split: sum.splits)

lemma format_result_missing:
  "r ''uuid'' = None \<or> r ''fact'' = None \<Longrightarrow> \<exists>e. format_result r = Inl e"
  by (auto simp: format_result_def make_result_def getattr_def split: option.splits sum.splits)

text \<open>
  C1, as stated, at a search call that is cancelled: \<open>asyncio.CancelledError\<close> is an
  exception but not an \<open>Exception\<close>, so \<open>search_graphiti\<close> does not return the empty
  list; the exception propagates to its caller.
\<close>

theorem cancelled_search_propagates_counterexample:
  "search_graphiti cancelled_search ''gpt'' = Inl (PyBaseException ''CancelledError'')
   \<and> search_graphiti cancelled_search ''gpt'' \<noteq> Inr []"
  by (simp add: search_graphiti_def search_body_def cancelled_search_def)

text \<open>
  C1, amended. Whatever the query, when the fact store's search call fails by raising
  an instance of \<open>Exception\<close>, or returns \<open>None\<close> or a payload that is not a
  collection, \<open>search_graphiti\<close> returns the empty list and raises nothing. An
  exception that derives from \<open>BaseException\<close> only (\<open>KeyboardInterrupt\<close>,
  \<open>asyncio.CancelledError\<close>, \<open>SystemExit\<close>) is not absorbed: it propagates to the
  caller.
\<close>

theorem search_failure_returns_empty:
  "((\<exists>e. search query = Inl e \<and> is_Exception e)
      \<or> search query = Inr RespNone \<or> search query = Inr RespUnsized \<longrightarrow>
     search_graphiti search query = Inr [])
   \<and> (search query = Inl e \<and> \<not> is_Exception e \<longrightarrow>
     search_graphiti search query = Inl e)"
  by (auto simp: search_graphiti_def search_body_def)

theorem search_failure_returns_empty_witness:
  "search_graphiti disconnected_search ''gpt'' = Inr []
   \<and> search_graphiti null_search ''gpt'' = Inr []
   \<and> search_graphiti unsized_search ''gpt'' = Inr []
   \<and> search_graphiti cancelled_search ''gpt'' = Inl (PyBaseException ''CancelledError'')"
  using search_failure_returns_empty [of disconnected_search "''gpt''"]
    search_failure_returns_empty [of null_search "''gpt''"]
    search_failure_returns_empty [of unsized_search "''gpt''"]
    search_failure_returns_empty
      [of cancelled_search "''gpt''" "PyBaseException ''CancelledError''"]
  by (simp add: disconnected_search_def null_search_def unsized_search_def
      cancelled_search_def)

text \<open>
  C10. When a response that the search call returned holds at least one record without
  a \<open>uuid\<close> or without a \<open>fact\<close> attribute, \<open>search_graphiti\<close> returns the empty list:
  the well-formed records of that response are discarded with it.
\<close>

theorem malformed_record_discards_response:
  assumes "search query = Inr (RespList rs)" and "r \<in> set rs"
    and "r ''uuid'' = None \<or> r ''fact'' = None"
  shows "search_graphiti search query = Inr []"
proof -
  from assms(3) obtain e where "format_result r = Inl e"
    using format_result_missing by blast
  with assms(2) obtain e' where e': "format_loop rs [] = Inl e'"
    using format_loop_fails by blast
  then have "is_Exception e'" by (rule format_loop_is_Exception)
  moreover from assms(1) e' have "search_body search query = Inl e'"
    by (simp add: search_body_def)
  ultimately show ?thesis by (simp add: search_graphiti_def)
qed

theorem malformed_record_discards_response_witness:
  "search_graphiti partial_search ''gpt'' = Inr []"
  using malformed_record_discards_response
    [of partial_search "''gpt''" _ "[''uuid'' \<mapsto> PyStr ''2'']"]
  by (simp add: partial_search_def)

lemma format_loop_all:
  "map format_result rs = map Inr frs \<Longrightarrow> format_loop rs acc = Inr (acc @ frs)"
proof (induction rs arbitrary: acc frs)
  case Nil
  then show ?case by simp
next
  case (Cons r rs)
  then obtain fr frs' where frs: "frs = fr # frs'" by (cases frs) auto
  with Cons.prems have "format_result r = Inr fr" "map format_result rs = map Inr frs'"
    by auto
  with Cons.IH [of frs' "acc @ [fr]"] frs show ?case by simp
qed

lemma format_result_succeeds_iff:
  "(\<exists>fr. format_result r = Inr fr) \<longleftrightarrow>
     (\<exists>u f. r ''uuid'' = Some (PyStr u) \<and> r ''fact'' = Some (PyStr f))
     \<and> (r ''source_node_uuid'' = None \<or> r ''source_node_uuid'' = Some PyNone
        \<or> (\<exists>s. r ''source_node_uuid'' = Some (PyStr s)))"
proof (cases "r ''uuid''")
  case None
  then show ?thesis by (simp add: format_result_def make_result_def getattr_def)
next
  case u: (Some u)
  show ?thesis
  proof (cases "r ''fact''")
    case None
    with u show ?thesis by (simp add: format_result_def make_result_def getattr_def)
  next
    case f: (Some f)
    show ?thesis
    proof (cases "r ''source_node_uuid''")
      case None
      with u f show ?thesis
        by (cases u; cases f)
           (simp_all add: format_result_def make_result_def getattr_def hasattr_def Let_def)
    next
      case (Some s)
      with u f show ?thesis
        by (cases u; cases f; cases s)
           (simp_all add: format_result_def make_result_def getattr_def hasattr_def Let_def)
    qed
  qed
qed

lemma format_result_minimal:
  "r ''uuid'' = Some (PyStr u) \<Longrightarrow> r ''fact'' = Some (PyStr f) \<Longrightarrow>
   r ''source_node_uuid'' = None \<Longrightarrow> r ''valid_at'' = None \<Longrightarrow> r ''invalid_at'' = None \<Longrightarrow>
   format_result r = Inr \<lparr>uuid = u, fact = f, valid_at = None, invalid_at = None,
                          source_node_uuid = None\<rparr>"
  by (simp add: format_result_def make_result_def getattr_def hasattr_def temporal_def)

lemma example_search_result:
  "search_graphiti example_search query =
     Inr [\<lparr>uuid = ''1'', fact = ''A existed in 2020'', valid_at = None, invalid_at = None,
            source_node_uuid = None\<rparr>,
          \<lparr>uuid = [], fact = ''bad'', valid_at = None, invalid_at = None,
            source_node_uuid = None\<rparr>]"
  by (simp add: search_graphiti_def search_body_def example_search_def format_result_def
      make_result_def getattr_def hasattr_def temporal_def)

text \<open>
  C2, as stated, at the two records of its example: the record with the empty id is not
  dropped, so \<open>search_graphiti\<close> returns two results and not only the one with id
  \<open>"1"\<close>.
\<close>

theorem empty_id_record_kept_counterexample:
  "search_graphiti example_search ''A'' \<noteq>
     Inr [\<lparr>uuid = ''1'', fact = ''A existed in 2020'', valid_at = None, invalid_at = None,
            source_node_uuid = None\<rparr>]
   \<and> length (projr (search_graphiti example_search ''A'')) = 2"
  by (simp add: example_search_result)

text \<open>
  C2, amended. A raw record is turned into a result exactly when its \<open>uuid\<close> and \<open>fact\<close>
  attributes are present and are strings (the empty string included) and its
  \<open>source_node_uuid\<close>, when present, is \<open>None\<close> or a string. Missing optional
  attributes cause no failure and leave the fields absent. No record is dropped on its
  own: when every record of a response is turned into a result, \<open>search_graphiti\<close>
  returns those results, one per record and in order. For the two records of the
  example it returns two results, with ids \<open>"1"\<close> and \<open>""\<close>.
\<close>

theorem normalization_keeps_string_records:
  "((\<exists>fr. format_result r = Inr fr) \<longleftrightarrow>
      (\<exists>u f. r ''uuid'' = Some (PyStr u) \<and> r ''fact'' = Some (PyStr f))
      \<and> (r ''source_node_uuid'' = None \<or> r ''source_node_uuid'' = Some PyNone
         \<or> (\<exists>s. r ''source_node_uuid'' = Some (PyStr s))))
   \<and> (r ''uuid'' = Some (PyStr u) \<and> r ''fact'' = Some (PyStr f)
        \<and> r ''source_node_uuid'' = None \<and> r ''valid_at'' = None \<and> r ''invalid_at'' = None \<longrightarrow>
      format_result r = Inr \<lparr>uuid = u, fact = f, valid_at = None, invalid_at = None,
                             source_node_uuid = None\<rparr>)
   \<and> (search query = Inr (RespList rs) \<and> map format_result rs = map Inr frs \<longrightarrow>
      search_graphiti search query = Inr frs)
   \<and> search_graphiti example_search query =
       Inr [\<lparr>uuid = ''1'', fact = ''A existed in 2020'', valid_at = None, invalid_at = None,
              source_node_uuid = None\<rparr>,
            \<lparr>uuid = [], fact = ''bad'', valid_at = None, invalid_at = None,
              source_node_uuid = None\<rparr>]"
proof (intro conjI impI)
  show "(\<exists>fr. format_result r = Inr fr) \<longleftrightarrow>
      (\<exists>u f. r ''uuid'' = Some (PyStr u) \<and> r ''fact'' = Some (PyStr f))
      \<and> (r ''source_node_uuid'' = None \<or> r ''source_node_uuid'' = Some PyNone
         \<or> (\<exists>s. r ''source_node_uuid'' = Some (PyStr s)))"
    by (rule format_result_succeeds_iff)
next
  assume "r ''uuid'' = Some (PyStr u) \<and> r ''fact'' = Some (PyStr f)
        \<and> r ''source_node_uuid'' = None \<and> r ''valid_at'' = None \<and> r ''invalid_at'' = None"
  then show "format_result r = Inr \<lparr>uuid = u, fact = f, valid_at = None, invalid_at = None,
                             source_node_uuid = None\<rparr>"
    by (simp add: format_result_minimal)
next
  assume "search query = Inr (RespList rs) \<and> map format_result rs = map Inr frs"
  then show "search_graphiti search query = Inr frs"
    using format_loop_all [of rs frs "[]"]
    by (simp add: search_graphiti_def search_body_def)
next
  show "search_graphiti example_search query =
       Inr [\<lparr>uuid = ''1'', fact = ''A existed in 2020'', valid_at = None, invalid_at = None,
              source_node_uuid = None\<rparr>,
            \<lparr>uuid = [], fact = ''bad'', valid_at = None, invalid_at = None,
              source_node_uuid = None\<rparr>]"
    by (rule example_search_result)
qed

theorem normalization_keeps_string_records_witness:
  "format_result [''uuid'' \<mapsto> PyStr [], ''fact'' \<mapsto> PyStr ''bad''] =
     Inr \<lparr>uuid = [], fact = ''bad'', valid_at = None, invalid_at = None,
           source_node_uuid = None\<rparr>
   \<and> search_graphiti example_search ''A'' =
       Inr [\<lparr>uuid = ''1'', fact = ''A existed in 2020'', valid_at = None, invalid_at = None,
              source_node_uuid = None\<rparr>,
            \<lparr>uuid = [], fact = ''bad'', valid_at = None, invalid_at = None,
              source_node_uuid = None\<rparr>]"
  using normalization_keeps_string_records
    [of "[''uuid'' \<mapsto> PyStr [], ''fact'' \<mapsto> PyStr ''bad'']" "[]" "''bad''"
      example_search "''A''"
      "[[''uuid'' \<mapsto> PyStr ''1'', ''fact'' \<mapsto> PyStr ''A existed in 2020''],
        [''uuid'' \<mapsto> PyStr [], ''fact'' \<mapsto> PyStr ''bad'']]"
      "[\<lparr>uuid = ''1'', fact = ''A existed in 2020'', valid_at = None, invalid_at = None,
              source_node_uuid = None\<rparr>,
            \<lparr>uuid = [], fact = ''bad'', valid_at = None, invalid_at = None,
              source_node_uuid = None\<rparr>]"]
  by (simp add: example_search_def)

section \<open>The streaming buffer\<close>

lemma prefixes_Nil_tl: "prefixes fs = [] # tl (prefixes fs)"
  by (cases fs) simp_all

lemma stream_text_general:
  "stream_text fs buf =
     (buf @ concat fs, map (\<lambda>p. LiveUpdate (buf @ concat p)) (tl (prefixes fs)))"
proof (induction fs arbitrary: buf)
  case Nil
  show ?case by simp
next
  case (Cons f fs)
  have "tl (prefixes (f # fs)) = [f] # map ((#) f) (tl (prefixes fs))"
    using prefixes_Nil_tl [of fs] by (metis list.sel(3) list.simps(9) prefixes.simps(2))
  then show ?case by (simp add: Cons.IH comp_def)
qed

text \<open>
  C6. For every finite stream of fragments, the buffer shown after each fragment is the
  concatenation of the fragments received so far (the updates are the concatenations of
  the non-empty prefixes of the stream, in order), and the final answer is the
  concatenation of all fragments. For \<open>["Hel", "lo, ", "world"]\<close> the updates are
  \<open>"Hel"\<close>, \<open>"Hello, "\<close>, \<open>"Hello, world"\<close> and the final answer is \<open>"Hello, world"\<close>.
\<close>

theorem assembler_concatenates:
  "stream_text fs [] = (concat fs, map LiveUpdate (map concat (tl (prefixes fs))))
   \<and> stream_text [''Hel'', ''lo, '', ''world''] [] =
       (''Hello, world'',
        [LiveUpdate ''Hel'', LiveUpdate ''Hello, '', LiveUpdate ''Hello, world''])"
  by (simp add: stream_text_general comp_def)

section \<open>The session loop\<close>

lemma lower_examples:
  "lower ''EXIT'' = ''exit''" "lower ''Bye'' = ''bye''" "lower ''goodbye'' = ''goodbye''"
  "lower ''hi'' = ''hi''" "lower ''peer closed connection'' = ''peer closed connection''"
  by code_simp+

lemma turn_events:
  "ev \<in> set (fst (turn agent w u msgs)) \<Longrightarrow>
     ev = PrintRobot \<or> (\<exists>s. ev = LiveUpdate s) \<or> (\<exists>q h. ev = RunStream q h)"
  unfolding turn_def
  by (auto split: prod.splits run.splits option.splits simp: stream_text_general)

lemma on_error_events:
  "ev \<in> set (fst (on_error console e)) \<Longrightarrow>
     ev = PrintTroubleshooting \<or> (\<exists>s. ev = PrintError s)"
  by (auto simp: on_error_def split: if_splits option.splits)

lemma fst_prepend: "fst (prepend evs res) = evs @ fst res"
  by (cases res) (simp add: prepend_def)

lemma session_loop_events:
  "ev \<in> set (fst (session_loop console agent w inputs msgs)) \<Longrightarrow>
     ev = PromptUser \<or> ev = PrintGoodbye \<or> ev = PrintRobot \<or> ev = PrintTroubleshooting
     \<or> (\<exists>s. ev = LiveUpdate s) \<or> (\<exists>s. ev = PrintError s) \<or> (\<exists>q h. ev = RunStream q h)"
proof (induction inputs arbitrary: w msgs)
  case Nil
  then show ?case by simp
next
  case (Cons a inputs)
  show ?case
  proof (cases a)
    case (Inl e)
    with Cons.prems show ?thesis by simp
  next
    case (Inr user_input)
    show ?thesis
    proof (cases "lower user_input \<in> set exit_tokens")
      case True
      with Cons.prems Inr show ?thesis by auto
    next
      case False
      obtain evs messages' err w'
        where t: "turn agent w user_input msgs = (evs, messages', err, w')"
        by (cases "turn agent w user_input msgs") auto
      have evs: "ev \<in> set evs \<Longrightarrow> ?thesis"
        using turn_events [of ev agent w user_input msgs] t by auto
      have rest: "ev \<in> set (fst (session_loop console agent w' inputs messages')) \<Longrightarrow> ?thesis"
        by (rule Cons.IH)
      show ?thesis
      proof (cases err)
        case None
        with Cons.prems Inr False t have "ev = PromptUser \<or> ev \<in> set evs
            \<or> ev \<in> set (fst (session_loop console agent w' inputs messages'))"
          by (auto simp: fst_prepend)
        with evs rest show ?thesis by auto
      next
        case (Some e)
        show ?thesis
        proof (cases "is_Exception e")
          case True
          obtain printed raised where oe: "on_error console e = (printed, raised)"
            by (cases "on_error console e") auto
          have printed: "ev \<in> set printed \<Longrightarrow> ?thesis"
            using on_error_events [of ev console e] oe by auto
          from Cons.prems Inr False t Some True oe
          have "ev = PromptUser \<or> ev \<in> set evs \<or> ev \<in> set printed
              \<or> ev \<in> set (fst (session_loop console agent w' inputs messages'))"
            by (cases raised) (auto simp: fst_prepend)
          with evs rest printed show ?thesis by auto
        next
          case no: False
          with Cons.prems Inr False t Some
          have "ev = PromptUser \<or> ev \<in> set evs" by auto
          with evs show ?thesis by auto
        qed
      qed
    qed
  qed
qed

text \<open>
  C3, as stated, at a successful first turn in which the backend called the search
  tool: the turn raises nothing and the history does not grow by two entries (the run
  has four messages).
\<close>

theorem history_growth_counterexample:
  "fst (snd (snd (turn tool_call_agent () ''When was it released?'' []))) = None
   \<and> length (fst (snd (turn tool_call_agent () ''When was it released?'' [])))
       \<noteq> length ([] :: message list) + 2"
  by (simp add: turn_def tool_call_agent_def all_messages_def split: prod.splits)

text \<open>
  C3, amended. For every turn, when the run succeeds the history is extended so that
  it ends with the messages of that run in their order (the earlier history stays in
  front; from an empty history the result is exactly the messages of the run, which
  are two only when the run has two); when the generation-backend call fails entirely
  the history is left as it was.
\<close>

theorem history_keeps_run_messages:
  "(fst (agent w user_input messages) = Stream fragments None new_messages \<longrightarrow>
      prefix messages (fst (snd (turn agent w user_input messages)))
      \<and> suffix new_messages (fst (snd (turn agent w user_input messages)))
      \<and> (messages = [] \<longrightarrow> fst (snd (turn agent w user_input messages)) = new_messages)
      \<and> fst (snd (snd (turn agent w user_input messages))) = None)
   \<and> (fst (agent w user_input messages) = EnterRaises e \<longrightarrow>
      fst (snd (turn agent w user_input messages)) = messages
      \<and> fst (snd (snd (turn agent w user_input messages))) = Some e)"
  by (cases "agent w user_input messages")
     (auto simp: turn_def all_messages_def suffix_def split: prod.splits)

theorem history_keeps_run_messages_witness:
  "fst (snd (turn plain_agent () ''hi'' [ModelRequest ''a'', ModelResponse ''b'']))
     = [ModelRequest ''a'', ModelResponse ''b'', ModelRequest ''a'', ModelResponse ''b'',
        ModelRequest ''hi'', ModelResponse ''Hello'']
   \<and> prefix [ModelRequest ''a'', ModelResponse ''b'']
     (fst (snd (turn plain_agent () ''hi'' [ModelRequest ''a'', ModelResponse ''b''])))
   \<and> suffix [ModelRequest ''hi'', ModelResponse ''Hello'']
     (fst (snd (turn plain_agent () ''hi'' [ModelRequest ''a'', ModelResponse ''b''])))
   \<and> fst (snd (turn plain_agent () ''hi'' [])) = [ModelRequest ''hi'', ModelResponse ''Hello'']
   \<and> fst (snd (turn unreachable_agent () ''hi'' [ModelRequest ''a'', ModelResponse ''b'']))
     = [ModelRequest ''a'', ModelResponse ''b'']"
  using history_keeps_run_messages
      [of plain_agent "()" "''hi''" "[ModelRequest ''a'', ModelResponse ''b'']"
        "[''Hel'', ''lo'']" "[ModelRequest ''hi'', ModelResponse ''Hello'']"]
    history_keeps_run_messages
      [of plain_agent "()" "''hi''" "[]"
        "[''Hel'', ''lo'']" "[ModelRequest ''hi'', ModelResponse ''Hello'']"]
    history_keeps_run_messages
      [of unreachable_agent "()" "''hi''" "[ModelRequest ''a'', ModelResponse ''b'']"
        _ _ "PyException ''APIConnectionError'' ''Connection error.''"]
  by (simp add: plain_agent_def unreachable_agent_def turn_def all_messages_def)

text \<open>
  What \<open>messages.extend(result.all_messages())\<close> makes of the history after a
  successful run, in full.
\<close>

lemma turn_success_history:
  "fst (agent w user_input messages) = Stream fragments None new_messages \<Longrightarrow>
     fst (snd (turn agent w user_input messages)) = messages @ messages @ new_messages"
  by (cases "agent w user_input messages")
     (auto simp: turn_def all_messages_def split: prod.splits)

text \<open>
  C5. When the text stream of a turn raises after some fragments, be it a backend
  failure or an interrupt, the turn leaves the history exactly as it was and the
  exception leaves the turn; when it is not an \<open>Exception\<close> (an interrupt), the session
  loop ends with that history and that exception.
\<close>

theorem aborted_stream_leaves_history:
  assumes "fst (agent w user_input messages) = Stream fragments (Some e) new_messages"
  shows "fst (snd (turn agent w user_input messages)) = messages
    \<and> fst (snd (snd (turn agent w user_input messages))) = Some e
    \<and> (lower user_input \<notin> set exit_tokens \<and> \<not> is_Exception e \<longrightarrow>
         snd (session_loop console agent w (Inr user_input # inputs) messages)
           = (messages, Some e))"
  using assms
  by (cases "agent w user_input messages") (auto simp: turn_def split: prod.splits)

theorem aborted_stream_leaves_history_witness:
  "snd (session_loop strict_console interrupted_agent () [Inr ''hi'', Inr ''exit'']
          [ModelRequest ''a'']) =
     ([ModelRequest ''a''], Some (PyBaseException ''KeyboardInterrupt''))"
  using aborted_stream_leaves_history
    [of interrupted_agent "()" "''hi''" "[ModelRequest ''a'']" "[''Hel'']"
      "PyBaseException ''KeyboardInterrupt''" "[]" strict_console "[Inr ''exit'']"]
  by (simp add: interrupted_agent_def lower_examples exit_tokens_def)

text \<open>
  Inside lines 173-223 the client is closed exactly once, however the loop is left:
  \<open>Close\<close> is the event of the \<open>finally\<close> block and occurs nowhere before it.
\<close>

lemma run_session_closes_once:
  "\<exists>evs. fst (run_session console agent w inputs) = evs @ [Close, PrintClosed]
     \<and> Close \<notin> set evs"
proof -
  obtain evs messages err
    where s: "session_loop console agent w inputs [] = (evs, messages, err)"
    by (cases "session_loop console agent w inputs []") auto
  have "Close \<notin> set evs"
    using session_loop_events [of Close console agent w inputs "[]"] s by auto
  with s show ?thesis by (simp add: run_session_def)
qed

text \<open>
  When a turn fails with an \<open>Exception\<close> and the console prints the error text, the
  loop goes on with the remaining input and the unchanged history.
\<close>

lemma turn_failure_continues:
  assumes "lower user_input \<notin> set exit_tokens"
    and "fst (agent w user_input messages) = EnterRaises e
         \<or> fst (agent w user_input messages) = Stream fragments (Some e) new_messages"
    and "is_Exception e"
    and "console (error_markup (exc_str e)) = None"
  shows "session_loop console agent w (Inr user_input # inputs) messages =
     prepend (PromptUser # fst (turn agent w user_input messages)
                @ fst (on_error console e))
       (session_loop console agent (snd (agent w user_input messages)) inputs messages)"
  using assms
  by (cases "agent w user_input messages")
     (auto simp: turn_def on_error_def split: prod.splits)

text \<open>
  C8. A turn fails with an \<open>Exception\<close> whose message makes the print of line 206
  raise: the exception of the print is raised inside the handler, nothing is printed
  for the turn, and the loop ends with that exception instead of reading the next
  input.
\<close>

theorem error_print_failure_ends_session:
  assumes "lower user_input \<notin> set exit_tokens"
    and "fst (agent w user_input messages) = EnterRaises e
         \<or> fst (agent w user_input messages) = Stream fragments (Some e) new_messages"
    and "is_Exception e"
    and "console (error_markup (exc_str e)) = Some raised"
  shows "session_loop console agent w (Inr user_input # inputs) messages =
     (PromptUser # fst (turn agent w user_input messages), messages, Some raised)"
  using assms
  by (cases "agent w user_input messages")
     (auto simp: turn_def on_error_def split: prod.splits)

theorem error_print_failure_ends_session_witness:
  "run_session strict_console tagged_agent () [Inr ''hi'', Inr ''hi''] =
     ([PromptUser, PrintRobot, RunStream ''hi'' [], Close, PrintClosed], [],
      Some (PyException ''MarkupError'' ''closing tag [/INST] does not match any open tag''))"
  using error_print_failure_ends_session
    [of "''hi''" tagged_agent "()" "[]" "PyException ''BadRequestError'' ''unexpected token [/INST]''"
      _ _ strict_console
      "PyException ''MarkupError'' ''closing tag [/INST] does not match any open tag''"
      "[Inr ''hi'']"]
  by (simp add: run_session_def tagged_agent_def strict_console_def error_markup_def
      lower_examples exit_tokens_def turn_def)

text \<open>
  C9. When the lower-cased input is one of \<open>exit\<close>, \<open>quit\<close>, \<open>bye\<close>, \<open>goodbye\<close>, the loop
  prints the goodbye and ends without running the agent (there is no \<open>RunStream\<close>
  event, and the result does not depend on the agent); \<open>"EXIT"\<close>, \<open>"Bye"\<close> and
  \<open>"goodbye"\<close> are such inputs.
\<close>

theorem exit_tokens_terminate:
  "(lower user_input \<in> set exit_tokens \<longrightarrow>
      session_loop console agent w (Inr user_input # inputs) messages =
        ([PromptUser, PrintGoodbye], messages, None))
   \<and> lower ''EXIT'' \<in> set exit_tokens \<and> lower ''Bye'' \<in> set exit_tokens
   \<and> lower ''goodbye'' \<in> set exit_tokens"
  by (simp add: lower_examples exit_tokens_def)

theorem exit_tokens_terminate_witness:
  "run_session strict_console tool_call_agent () [Inr ''EXIT'', Inr ''hi''] =
     ([PromptUser, PrintGoodbye, Close, PrintClosed], [], None)"
  using exit_tokens_terminate
    [of "''EXIT''" strict_console tool_call_agent "()" "[Inr ''hi'']" "[]"]
  by (simp add: run_session_def)

section \<open>Session start\<close>

text \<open>
  C4. When the index build and the clear both succeed at session start, \<open>main\<close> builds
  the indices once, clears the data and enters the loop: no index build follows the
  clear. \<open>initialize_graphiti_with_clean_state\<close>, on the same outcomes, builds the
  indices again after the clear.
\<close>

theorem main_clears_without_rebuild:
  "(\<exists>evs. fst (main console None None agent w inputs) =
       [PrintWelcome, PrintConfiguration, CreateClient, BuildIndices, PrintIndicesBuilt,
        ClearData] @ evs \<and> BuildIndices \<notin> set evs)
   \<and> fst (initialize_graphiti_with_clean_state None (Some None) None) =
       [BuildIndices, PrintClearing, ClearData, PrintCleared, BuildIndices]"
proof -
  obtain evs messages err
    where s: "session_loop console agent w inputs [] = (evs, messages, err)"
    by (cases "session_loop console agent w inputs []") auto
  have "BuildIndices \<notin> set evs"
    using session_loop_events [of BuildIndices console agent w inputs "[]"] s by auto
  with s show ?thesis
    by (simp add: main_def startup_def run_session_def prepend_def
        initialize_graphiti_with_clean_state_def)
qed

text \<open>
  C7. An interrupt while the indices are built, or while the data is cleared, at
  session start: the client has been created, \<open>except Exception\<close> does not catch the
  interrupt, and \<open>main\<close> is left before the \<open>try\<close> whose \<open>finally\<close> closes the client.
  The run has a \<open>CreateClient\<close> event and no \<open>Close\<close> event.
\<close>

theorem startup_interrupt_skips_close:
  "main console (Some (PyBaseException ''KeyboardInterrupt'')) clear agent w inputs =
     ([PrintWelcome, PrintConfiguration, CreateClient, BuildIndices], [],
      Some (PyBaseException ''KeyboardInterrupt''))
   \<and> main console None (Some (PyBaseException ''KeyboardInterrupt'')) agent w inputs =
     ([PrintWelcome, PrintConfiguration, CreateClient, BuildIndices, PrintIndicesBuilt,
       ClearData], [],
      Some (PyBaseException ''KeyboardInterrupt''))"
  by (simp add: main_def startup_def)

text \<open>
  The whole of \<open>main\<close>: when the start-up block lets no exception through, the run
  closes the client exactly once, in the \<open>finally\<close> block; when an exception leaves
  the start-up block, \<open>main\<close> ends with it and with no \<open>Close\<close> event.
\<close>

lemma startup_events: "Close \<notin> set (fst (startup console build clear))"
  by (auto simp: startup_def on_startup_error_def split: option.splits prod.splits)

lemma main_closes_once:
  assumes "snd (startup console build clear) = None"
  shows "\<exists>evs. fst (main console build clear agent w inputs) = evs @ [Close, PrintClosed]
           \<and> Close \<notin> set evs"
proof -
  obtain evs0 where st: "startup console build clear = (evs0, None)"
    using assms by (cases "startup console build clear") auto
  obtain evs messages err
    where s: "session_loop console agent w inputs [] = (evs, messages, err)"
    by (cases "session_loop console agent w inputs []") auto
  have "Close \<notin> set evs"
    using session_loop_events [of Close console agent w inputs "[]"] s by auto
  moreover have "Close \<notin> set evs0"
    using startup_events [of console build clear] st by simp
  ultimately show ?thesis
    using st s by (simp add: main_def run_session_def prepend_def)
qed

lemma main_startup_exception:
  assumes "snd (startup console build clear) = Some e"
  shows "Close \<notin> set (fst (main console build clear agent w inputs))
         \<and> snd (main console build clear agent w inputs) = ([], Some e)"
proof -
  obtain evs0 where st: "startup console build clear = (evs0, Some e)"
    using assms by (cases "startup console build clear") auto
  with startup_events [of console build clear] show ?thesis
    by (simp add: main_def)
qed

end
